theory Spec2Isabelle
  imports Main "HOL-Library.Word"
begin

section \<open>USB descriptors of \<open>adafruit_usb_descriptor.standard\<close>\<close>

text \<open>
  The module \<^verbatim>\<open>standard.py\<close> declares the field tables of the standard USB descriptors
  as subclasses of \<^verbatim>\<open>core.Descriptor\<close>, the serialization of an interface together with
  its subdescriptors, and the string descriptor, a class of its own.

  Python values are modelled as follows: an \<^verbatim>\<open>int\<close> is an \<open>int\<close>, a \<^verbatim>\<open>bytes\<close> object is a
  list of 8-bit words, a \<^verbatim>\<open>str\<close> is the list of its Unicode code points (natural numbers
  below \<open>0x110000\<close>; a Python \<^verbatim>\<open>str\<close> may hold lone surrogates), and a raised exception is
  the left injection of a sum. The properties of texts below hold for every list of
  natural numbers, so for every \<^verbatim>\<open>str\<close>.
\<close>

subsection \<open>Values and exceptions\<close>

type_synonym byte = "8 word"

type_synonym str = "nat list"

datatype error =
    ValueError
  | AttributeError
  | IndexError
  | UnicodeEncodeError
  | UnicodeDecodeError
  | StructError
  | MissingFieldError
  | ValueOutOfRangeError
  | SchemaMismatchError

text \<open>The argument of \<^verbatim>\<open>StringDescriptor(value)\<close>: a \<^verbatim>\<open>str\<close> or a byte sequence.\<close>

datatype pyvalue = PyStr str | PyBytes "byte list"

text \<open>
  Python's slice \<^verbatim>\<open>xs[lo:hi]\<close> with step 1: a negative index counts from the end, and
  both indices are clamped to the length of the sequence.
\<close>

definition slice_index :: "nat \<Rightarrow> int \<Rightarrow> nat" where
  "slice_index n i = (if i < 0 then nat (max (i + int n) 0) else min (nat i) n)"

definition slice :: "'a list \<Rightarrow> int \<Rightarrow> int \<Rightarrow> 'a list" where
  "slice xs lo hi = drop (slice_index (length xs) lo) (take (slice_index (length xs) hi) xs)"

subsection \<open>The codec \<^verbatim>\<open>utf-16-le\<close>\<close>

text \<open>
  \<^verbatim>\<open>str.encode("utf-16-le")\<close>: a code point of the basic plane is one 16-bit unit, low
  byte first; a code point from \<open>0x10000\<close> on is a surrogate pair; a surrogate code
  point (\<open>0xD800\<close> to \<open>0xDFFF\<close>) cannot be encoded and raises \<^verbatim>\<open>UnicodeEncodeError\<close>.
\<close>

definition unit_bytes :: "nat \<Rightarrow> byte list" where
  "unit_bytes u = [of_nat (u mod 256), of_nat (u div 256)]"

definition encode_code_point :: "nat \<Rightarrow> error + byte list" where
  "encode_code_point c =
     (if 0xD800 \<le> c \<and> c \<le> 0xDFFF then Inl UnicodeEncodeError
      else if c < 0x10000 then Inr (unit_bytes c)
      else Inr (unit_bytes (0xD800 + (c - 0x10000) div 0x400) @
                unit_bytes (0xDC00 + (c - 0x10000) mod 0x400)))"

fun utf16le_encode :: "str \<Rightarrow> error + byte list" where
  "utf16le_encode [] = Inr []"
| "utf16le_encode (c # cs) =
     (case encode_code_point c of
        Inl e \<Rightarrow> Inl e
      | Inr b \<Rightarrow> (case utf16le_encode cs of Inl e \<Rightarrow> Inl e | Inr bs \<Rightarrow> Inr (b @ bs)))"

text \<open>
  \<^verbatim>\<open>bytes.decode("utf-16-le")\<close>, strict: units are read low byte first; a high surrogate
  must be followed by a low surrogate, with which it forms one code point; a lone
  surrogate and a trailing odd byte raise \<^verbatim>\<open>UnicodeDecodeError\<close>.
\<close>

definition unit_of :: "byte \<Rightarrow> byte \<Rightarrow> nat" where
  "unit_of lo hi = unat lo + 256 * unat hi"

fun utf16le_decode :: "byte list \<Rightarrow> error + str" where
  "utf16le_decode [] = Inr []"
| "utf16le_decode [b] = Inl UnicodeDecodeError"
| "utf16le_decode (b0 # b1 # bs) =
     (let u = unit_of b0 b1 in
      if 0xD800 \<le> u \<and> u \<le> 0xDBFF then
        (case bs of
           b2 # b3 # bs' \<Rightarrow>
             (let v = unit_of b2 b3 in
              if 0xDC00 \<le> v \<and> v \<le> 0xDFFF then
                (case utf16le_decode bs' of
                   Inl e \<Rightarrow> Inl e
                 | Inr cs \<Rightarrow> Inr ((0x10000 + (u - 0xD800) * 0x400 + (v - 0xDC00)) # cs))
              else Inl UnicodeDecodeError)
         | _ \<Rightarrow> Inl UnicodeDecodeError)
      else if 0xDC00 \<le> u \<and> u \<le> 0xDFFF then Inl UnicodeDecodeError
      else (case utf16le_decode bs of Inl e \<Rightarrow> Inl e | Inr cs \<Rightarrow> Inr (u # cs)))"

subsection \<open>The class \<^verbatim>\<open>StringDescriptor\<close>\<close>

text \<open>
  An instance has at most the two attributes \<^verbatim>\<open>_bString\<close> and \<^verbatim>\<open>_bLength\<close>; \<open>None\<close> is
  an attribute that was never assigned. Reading an attribute that is not there raises
  \<^verbatim>\<open>AttributeError\<close>.
\<close>

record string_descriptor =
  attr_bString :: "byte list option"
  attr_bLength :: "int option"

definition getattr_bytes :: "string_descriptor \<Rightarrow> string \<Rightarrow> error + byte list" where
  "getattr_bytes self name =
     (if name = ''_bString'' then
        (case attr_bString self of None \<Rightarrow> Inl AttributeError | Some b \<Rightarrow> Inr b)
      else Inl AttributeError)"

definition getattr_int :: "string_descriptor \<Rightarrow> string \<Rightarrow> error + int" where
  "getattr_int self name =
     (if name = ''_bLength'' then
        (case attr_bLength self of None \<Rightarrow> Inl AttributeError | Some l \<Rightarrow> Inr l)
      else Inl AttributeError)"

definition StringDescriptor_bDescriptorType :: int where
  "StringDescriptor_bDescriptorType = 3"

definition StringDescriptor_bLength :: "string_descriptor \<Rightarrow> error + int" where
  "StringDescriptor_bLength self = getattr_int self ''_bLength''"

text \<open>
  \<^verbatim>\<open>__init__(self, value)\<close>: a \<^verbatim>\<open>str\<close> is encoded and the length is the number of
  encoded bytes plus 2; any other value of more than one element is read as wire
  bytes; a shorter one leaves the instance without attributes.
\<close>

definition StringDescriptor_init :: "pyvalue \<Rightarrow> error + string_descriptor" where
  "StringDescriptor_init v =
     (case v of
        PyStr t \<Rightarrow>
          (case utf16le_encode t of
             Inl e \<Rightarrow> Inl e
           | Inr bs \<Rightarrow>
               Inr \<lparr>attr_bString = Some bs, attr_bLength = Some (int (length bs) + 2)\<rparr>)
      | PyBytes raw \<Rightarrow>
          (if length raw > 1 then
             (let len = uint (raw ! 0) in
              if raw ! 1 \<noteq> 3 then Inl ValueError
              else Inr \<lparr>attr_bString = Some (slice raw 2 (2 + len)),
                        attr_bLength = Some len\<rparr>)
           else Inr \<lparr>attr_bString = None, attr_bLength = None\<rparr>))"

text \<open>
  \<^verbatim>\<open>__bytes__\<close> is \<^verbatim>\<open>struct.pack("BB{}s".format(len(self._bString)), self.bLength,
  self.bDescriptorType, self._bString)\<close>: the arguments are evaluated from left to
  right, and the format \<^verbatim>\<open>B\<close> raises \<^verbatim>\<open>struct.error\<close> for a number outside 0..255.
\<close>

definition pack_B :: "int \<Rightarrow> error + byte" where
  "pack_B v = (if 0 \<le> v \<and> v \<le> 255 then Inr (word_of_int v) else Inl StructError)"

definition StringDescriptor_bytes :: "string_descriptor \<Rightarrow> error + byte list" where
  "StringDescriptor_bytes self =
     (case getattr_bytes self ''_bString'' of
        Inl e \<Rightarrow> Inl e
      | Inr s \<Rightarrow>
          (case StringDescriptor_bLength self of
             Inl e \<Rightarrow> Inl e
           | Inr l \<Rightarrow>
               (case pack_B l of
                  Inl e \<Rightarrow> Inl e
                | Inr b0 \<Rightarrow>
                    (case pack_B StringDescriptor_bDescriptorType of
                       Inl e \<Rightarrow> Inl e
                     | Inr b1 \<Rightarrow> Inr (b0 # b1 # s)))))"

text \<open>The property \<^verbatim>\<open>bString\<close>: the getter decodes the stored bytes.\<close>

definition StringDescriptor_bString :: "string_descriptor \<Rightarrow> error + str" where
  "StringDescriptor_bString self =
     (case getattr_bytes self ''_bString'' of
        Inl e \<Rightarrow> Inl e
      | Inr s \<Rightarrow> utf16le_decode s)"

text \<open>
  The setter of \<^verbatim>\<open>bString\<close> assigns \<^verbatim>\<open>_bString\<close> and then reads \<^verbatim>\<open>self.encoded\<close> for the
  new length. It returns the instance as the statement leaves it, and the exception
  or \<open>Inr ()\<close>.
\<close>

definition StringDescriptor_bString_setter ::
  "string_descriptor \<Rightarrow> str \<Rightarrow> string_descriptor \<times> (error + unit)" where
  "StringDescriptor_bString_setter self v =
     (case utf16le_encode v of
        Inl e \<Rightarrow> (self, Inl e)
      | Inr bs \<Rightarrow>
          (let self1 = self\<lparr>attr_bString := Some bs\<rparr> in
           case getattr_bytes self1 ''encoded'' of
             Inl e \<Rightarrow> (self1, Inl e)
           | Inr enc \<Rightarrow> (self1\<lparr>attr_bLength := Some (int (length enc) + 2)\<rparr>, Inr ())))"

subsection \<open>Field tables of the standard descriptors\<close>

text \<open>
  A field is its name, its \<^verbatim>\<open>struct\<close> format character and its default; the default
  \<^verbatim>\<open>None\<close> marks a field that the caller has to supply.
\<close>

datatype fmt = Fmt_B | Fmt_H

type_synonym field = "string \<times> fmt \<times> int option"

definition EndpointDescriptor_fields :: "field list" where
  "EndpointDescriptor_fields =
     [(''bEndpointAddress'', Fmt_B, None),
      (''bmAttributes'', Fmt_B, None),
      (''wMaxPacketSize'', Fmt_H, Some 0x40),
      (''bInterval'', Fmt_B, Some 0)]"

definition EndpointDescriptor_bLength :: int where
  "EndpointDescriptor_bLength = 0x07"

definition EndpointDescriptor_bDescriptorType :: int where
  "EndpointDescriptor_bDescriptorType = 0x5"

definition TYPE_CONTROL :: int where "TYPE_CONTROL = 0"
definition TYPE_ISOCHRONOUS :: int where "TYPE_ISOCHRONOUS = 1"
definition TYPE_BULK :: int where "TYPE_BULK = 2"
definition TYPE_INTERRUPT :: int where "TYPE_INTERRUPT = 3"

definition DIRECTION_IN :: int where "DIRECTION_IN = 0x80"
definition DIRECTION_OUT :: int where "DIRECTION_OUT = 0x00"

definition InterfaceDescriptor_fields :: "field list" where
  "InterfaceDescriptor_fields =
     [(''bInterfaceNumber'', Fmt_B, Some 0),
      (''bAlternateSetting'', Fmt_B, Some 0),
      (''bNumEndpoints'', Fmt_B, Some 0),
      (''bInterfaceClass'', Fmt_B, None),
      (''bInterfaceSubClass'', Fmt_B, Some 0),
      (''bInterfaceProtocol'', Fmt_B, Some 0),
      (''iInterface'', Fmt_B, Some 0)]"

definition InterfaceDescriptor_bLength :: int where
  "InterfaceDescriptor_bLength = 0x09"

definition InterfaceDescriptor_bDescriptorType :: int where
  "InterfaceDescriptor_bDescriptorType = 0x4"

definition InterfaceAssociationDescriptor_fields :: "field list" where
  "InterfaceAssociationDescriptor_fields =
     [(''bFirstInterface'', Fmt_B, None),
      (''bInterfaceCount'', Fmt_B, None),
      (''bFunctionClass'', Fmt_B, None),
      (''bFunctionSubClass'', Fmt_B, None),
      (''bFunctionProtocol'', Fmt_B, None),
      (''iFunction'', Fmt_B, Some 0)]"

definition InterfaceAssociationDescriptor_bLength :: int where
  "InterfaceAssociationDescriptor_bLength = 0x08"

definition InterfaceAssociationDescriptor_bDescriptorType :: int where
  "InterfaceAssociationDescriptor_bDescriptorType = 0xB"

definition ConfigurationDescriptor_fields :: "field list" where
  "ConfigurationDescriptor_fields =
     [(''wTotalLength'', Fmt_H, None),
      (''bNumInterfaces'', Fmt_B, None),
      (''bConfigurationValue'', Fmt_B, Some 0x1),
      (''iConfiguration'', Fmt_B, Some 0),
      (''bmAttributes'', Fmt_B, Some 0x80),
      (''bMaxPower'', Fmt_B, Some 50)]"

definition ConfigurationDescriptor_bLength :: int where
  "ConfigurationDescriptor_bLength = 0x09"

definition ConfigurationDescriptor_bDescriptorType :: int where
  "ConfigurationDescriptor_bDescriptorType = 0x2"

definition DeviceDescriptor_fields :: "field list" where
  "DeviceDescriptor_fields =
     [(''bcdUSB'', Fmt_H, Some 0x200),
      (''bDeviceClass'', Fmt_B, Some 0xef),
      (''bDeviceSubClass'', Fmt_B, Some 0x02),
      (''bDeviceProtocol'', Fmt_B, Some 0x01),
      (''bMaxPacketSize0'', Fmt_B, Some 0x40),
      (''idVendor'', Fmt_H, None),
      (''idProduct'', Fmt_H, None),
      (''bcdDevice'', Fmt_H, Some 0x100),
      (''iManufacturer'', Fmt_B, None),
      (''iProduct'', Fmt_B, None),
      (''iSerialNumber'', Fmt_B, None),
      (''bNumConfigurations'', Fmt_B, Some 1)]"

definition DeviceDescriptor_bLength :: int where
  "DeviceDescriptor_bLength = 0x12"

definition DeviceDescriptor_bDescriptorType :: int where
  "DeviceDescriptor_bDescriptorType = 0x1"

text \<open>
  The subclasses of \<^verbatim>\<open>core.Descriptor\<close> that add nothing to its serialization, and their
  class attributes.
\<close>

datatype plain_class = Endpoint | InterfaceAssociation | Configuration | Device

fun fields :: "plain_class \<Rightarrow> field list" where
  "fields Endpoint = EndpointDescriptor_fields"
| "fields InterfaceAssociation = InterfaceAssociationDescriptor_fields"
| "fields Configuration = ConfigurationDescriptor_fields"
| "fields Device = DeviceDescriptor_fields"

fun bLength :: "plain_class \<Rightarrow> int" where
  "bLength Endpoint = EndpointDescriptor_bLength"
| "bLength InterfaceAssociation = InterfaceAssociationDescriptor_bLength"
| "bLength Configuration = ConfigurationDescriptor_bLength"
| "bLength Device = DeviceDescriptor_bLength"

fun bDescriptorType :: "plain_class \<Rightarrow> int" where
  "bDescriptorType Endpoint = EndpointDescriptor_bDescriptorType"
| "bDescriptorType InterfaceAssociation = InterfaceAssociationDescriptor_bDescriptorType"
| "bDescriptorType Configuration = ConfigurationDescriptor_bDescriptorType"
| "bDescriptorType Device = DeviceDescriptor_bDescriptorType"

text \<open>
  The field named by a table, and whether the caller has to supply it.
\<close>

definition field_default :: "field list \<Rightarrow> string \<Rightarrow> int option option" where
  "field_default fs name = map_option snd (map_of fs name)"

definition required :: "field list \<Rightarrow> string \<Rightarrow> bool" where
  "required fs name = (field_default fs name = Some None)"

subsection \<open>The base class \<^verbatim>\<open>core.Descriptor\<close>\<close>

text \<open>
  Modelled from the spec: the width of a field. The module \<^verbatim>\<open>core\<close>, with the
  constructor and the serialization of \<^verbatim>\<open>core.Descriptor\<close>, is not among the sources;
  the spec gives every field a width in bytes and an unsigned packing, and the tables
  above give the width as a \<^verbatim>\<open>struct\<close> format character (\<^verbatim>\<open>B\<close> one byte, \<^verbatim>\<open>H\<close> two).
\<close>

fun width :: "fmt \<Rightarrow> nat" where
  "width Fmt_B = 1"
| "width Fmt_H = 2"

text \<open>
  Modelled from the spec: the range check of a field value, \<open>0 \<le> value < 2^(8*width)\<close>.
\<close>

definition fits :: "fmt \<Rightarrow> int \<Rightarrow> bool" where
  "fits f v = (0 \<le> v \<and> v < 2 ^ (8 * width f))"

text \<open>
  Modelled from the spec: the little-endian bytes of a value at a given width.
\<close>

fun le_bytes :: "nat \<Rightarrow> int \<Rightarrow> byte list" where
  "le_bytes 0 v = []"
| "le_bytes (Suc n) v = word_of_int v # le_bytes n (v div 256)"

text \<open>
  Modelled from the spec: packing the values of a record, each at its declared width in
  the declared order; a value that does not fit its width is a \<^verbatim>\<open>ValueOutOfRangeError\<close>.
  The source stores the field values in the list \<^verbatim>\<open>self.data\<close> and assigns to it
  without a check, so the check is made where the record is packed. A list with another
  number of values than the table has fields is not a record of that table.
\<close>

fun pack_values :: "fmt list \<Rightarrow> int list \<Rightarrow> error + byte list" where
  "pack_values [] [] = Inr []"
| "pack_values (f # fs) (v # vs) =
     (if fits f v then
        (case pack_values fs vs of
           Inl e \<Rightarrow> Inl e
         | Inr bs \<Rightarrow> Inr (le_bytes (width f) v @ bs))
      else Inl ValueOutOfRangeError)"
| "pack_values [] (v # vs) = Inl SchemaMismatchError"
| "pack_values (f # fs) [] = Inl SchemaMismatchError"

text \<open>
  Modelled from the spec: \<^verbatim>\<open>core.Descriptor.__bytes__\<close>, the record length and the
  descriptor type, one byte each, followed by the fields.
\<close>

definition Descriptor_bytes :: "int \<Rightarrow> int \<Rightarrow> field list \<Rightarrow> int list \<Rightarrow> error + byte list" where
  "Descriptor_bytes len ty fs data =
     pack_values (Fmt_B # Fmt_B # map (\<lambda>(name, f, dflt). f) fs) (len # ty # data)"

text \<open>
  Modelled from the spec: \<^verbatim>\<open>core.Descriptor.__init__\<close> with keyword arguments. For each
  field of the table in turn: a supplied value is checked against the width of the
  field, a missing one is replaced by the default, and a missing one without a default
  is a \<^verbatim>\<open>MissingFieldError\<close>. The result is the list \<^verbatim>\<open>self.data\<close>.
\<close>

fun Descriptor_init :: "field list \<Rightarrow> (string \<rightharpoonup> int) \<Rightarrow> error + int list" where
  "Descriptor_init [] kwargs = Inr []"
| "Descriptor_init ((name, f, dflt) # fs) kwargs =
     (case (case kwargs name of
              Some v \<Rightarrow> if fits f v then Inr v else Inl ValueOutOfRangeError
            | None \<Rightarrow> (case dflt of Some d \<Rightarrow> Inr d | None \<Rightarrow> Inl MissingFieldError)) of
        Inl e \<Rightarrow> Inl e
      | Inr v \<Rightarrow> (case Descriptor_init fs kwargs of Inl e \<Rightarrow> Inl e | Inr vs \<Rightarrow> Inr (v # vs)))"

subsection \<open>Descriptor objects and their serialization\<close>

text \<open>
  A descriptor object is an instance of a plain subclass of \<^verbatim>\<open>core.Descriptor\<close> with
  its \<^verbatim>\<open>data\<close>, an \<^verbatim>\<open>InterfaceDescriptor\<close> with its \<^verbatim>\<open>data\<close> and its \<^verbatim>\<open>subdescriptors\<close>,
  a \<^verbatim>\<open>StringDescriptor\<close>, or any other object with the attribute \<^verbatim>\<open>bDescriptorType\<close>
  and the method \<^verbatim>\<open>__bytes__\<close> (a class-specific or vendor descriptor), given by its
  type and by what \<^verbatim>\<open>bytes\<close> of it returns or raises.
\<close>

datatype descriptor =
    Descriptor plain_class "int list"
  | InterfaceDescriptor "int list" "descriptor list"
  | StringDescriptor string_descriptor
  | OtherDescriptor int "error + byte list"

fun bDescriptorType_of :: "descriptor \<Rightarrow> int" where
  "bDescriptorType_of (Descriptor c data) = bDescriptorType c"
| "bDescriptorType_of (InterfaceDescriptor data subdescriptors) = InterfaceDescriptor_bDescriptorType"
| "bDescriptorType_of (StringDescriptor sd) = StringDescriptor_bDescriptorType"
| "bDescriptorType_of (OtherDescriptor ty r) = ty"

text \<open>
  \<^verbatim>\<open>InterfaceDescriptor.__init__\<close> takes the subdescriptors from the keyword argument of
  that name, the empty list without it, and leaves the fields to the base class.
\<close>

definition InterfaceDescriptor_init ::
  "(string \<rightharpoonup> int) \<Rightarrow> descriptor list option \<Rightarrow> error + descriptor" where
  "InterfaceDescriptor_init kwargs subs =
     (let subdescriptors = (case subs of None \<Rightarrow> [] | Some ds \<Rightarrow> ds) in
      case Descriptor_init InterfaceDescriptor_fields kwargs of
        Inl e \<Rightarrow> Inl e
      | Inr data \<Rightarrow> Inr (InterfaceDescriptor data subdescriptors))"

definition plain_init :: "plain_class \<Rightarrow> (string \<rightharpoonup> int) \<Rightarrow> error + descriptor" where
  "plain_init c kwargs =
     (case Descriptor_init (fields c) kwargs of
        Inl e \<Rightarrow> Inl e
      | Inr data \<Rightarrow> Inr (Descriptor c data))"

text \<open>
  \<^verbatim>\<open>bytes(desc)\<close>. For an interface, \<^verbatim>\<open>InterfaceDescriptor.__bytes__\<close> runs the loop over
  the subdescriptors, which serializes each one and counts those of the endpoint type,
  stores the count in \<^verbatim>\<open>self.data[2]\<close> (an \<^verbatim>\<open>IndexError\<close> on a shorter list), and
  returns the bytes of the base class followed by the joined bytes of the
  subdescriptors. The stored count stays in the object, and every later serialization
  overwrites it before it is read, so the bytes are a function of the object alone.
\<close>

fun bytes :: "descriptor \<Rightarrow> error + byte list"
  and subdescriptor_loop ::
    "descriptor list \<Rightarrow> int \<Rightarrow> byte list list \<Rightarrow> error + (int \<times> byte list list)" where
  "bytes (Descriptor c data) = Descriptor_bytes (bLength c) (bDescriptorType c) (fields c) data"
| "bytes (InterfaceDescriptor data subdescriptors) =
     (case subdescriptor_loop subdescriptors 0 [] of
        Inl e \<Rightarrow> Inl e
      | Inr (endpoint_count, subdescriptor_bytes) \<Rightarrow>
          if length data \<le> 2 then Inl IndexError
          else
            (case Descriptor_bytes InterfaceDescriptor_bLength InterfaceDescriptor_bDescriptorType
                    InterfaceDescriptor_fields (data[2 := endpoint_count]) of
               Inl e \<Rightarrow> Inl e
             | Inr own \<Rightarrow> Inr (own @ concat subdescriptor_bytes)))"
| "bytes (StringDescriptor sd) = StringDescriptor_bytes sd"
| "bytes (OtherDescriptor ty r) = r"
| "subdescriptor_loop [] endpoint_count subdescriptor_bytes =
     Inr (endpoint_count, subdescriptor_bytes)"
| "subdescriptor_loop (desc # rest) endpoint_count subdescriptor_bytes =
     (case bytes desc of
        Inl e \<Rightarrow> Inl e
      | Inr b \<Rightarrow>
          subdescriptor_loop rest
            (if bDescriptorType_of desc = EndpointDescriptor_bDescriptorType
             then endpoint_count + 1 else endpoint_count)
            (subdescriptor_bytes @ [b]))"

text \<open>
  The number of objects in a list whose \<^verbatim>\<open>bDescriptorType\<close> is the given one, and the
  lists of values that fit the widths of a field table: the notions in which the
  properties below are stated.
\<close>

definition count_of_type :: "int \<Rightarrow> descriptor list \<Rightarrow> int" where
  "count_of_type ty ds = int (length (filter (\<lambda>d. bDescriptorType_of d = ty) ds))"

definition fields_fit :: "field list \<Rightarrow> int list \<Rightarrow> bool" where
  "fields_fit fs data = list_all2 (\<lambda>(name, f, dflt) v. fits f v) fs data"

section \<open>Evaluation and helper lemmas\<close>

lemmas table_defs =
  EndpointDescriptor_fields_def EndpointDescriptor_bLength_def EndpointDescriptor_bDescriptorType_def
  InterfaceDescriptor_fields_def InterfaceDescriptor_bLength_def InterfaceDescriptor_bDescriptorType_def
  InterfaceAssociationDescriptor_fields_def InterfaceAssociationDescriptor_bLength_def
  InterfaceAssociationDescriptor_bDescriptorType_def
  ConfigurationDescriptor_fields_def ConfigurationDescriptor_bLength_def
  ConfigurationDescriptor_bDescriptorType_def
  DeviceDescriptor_fields_def DeviceDescriptor_bLength_def DeviceDescriptor_bDescriptorType_def
  StringDescriptor_bDescriptorType_def

lemma le_bytes_1: "le_bytes 1 v = [word_of_int v]"
  by simp

lemma le_bytes_2: "le_bytes 2 v = [word_of_int v, word_of_int (v div 256)]"
  by (simp add: numeral_2_eq_2)

lemmas pack_defs = Descriptor_bytes_def fits_def fields_fit_def count_of_type_def le_bytes_2

lemma subdescriptor_loop_Inr:
  "map bytes ds = map Inr cs \<Longrightarrow>
   subdescriptor_loop ds n acc =
     Inr (n + count_of_type EndpointDescriptor_bDescriptorType ds, acc @ cs)"
proof (induction ds arbitrary: n acc cs)
  case Nil
  then show ?case by (simp add: count_of_type_def)
next
  case (Cons d ds)
  then obtain c cs' where cs: "cs = c # cs'" "bytes d = Inr c" "map bytes ds = map Inr cs'"
    by (cases cs) auto
  show ?case
    using Cons.IH [OF cs(3)] cs(1,2) by (simp add: count_of_type_def)
qed

lemma pack_values_length: "pack_values fs vs = Inr bs \<Longrightarrow> length fs = length vs"
  by (induction fs vs arbitrary: bs rule: pack_values.induct)
     (auto split: if_splits sum.splits)

lemma interface_pack:
  assumes "fields_fit InterfaceDescriptor_fields data"
  shows "Descriptor_bytes InterfaceDescriptor_bLength InterfaceDescriptor_bDescriptorType
           InterfaceDescriptor_fields data = Inr (9 # 4 # map word_of_int data)"
  using assms
  by (auto simp: fields_fit_def InterfaceDescriptor_fields_def list_all2_Cons1
      Descriptor_bytes_def InterfaceDescriptor_bLength_def InterfaceDescriptor_bDescriptorType_def fits_def)

lemma fields_fit_count:
  assumes fit: "fields_fit InterfaceDescriptor_fields (data[2 := 0])" and "0 \<le> k" and "k \<le> 255"
  shows "fields_fit InterfaceDescriptor_fields (data[2 := k]) \<and> length data = 7"
proof -
  let ?P = "\<lambda>(name :: string, f, dflt :: int option) v. fits f v"
  have len: "length data = 7"
    using list_all2_lengthD [OF fit [unfolded fields_fit_def]]
    by (simp add: InterfaceDescriptor_fields_def)
  have "?P (InterfaceDescriptor_fields ! 2) k"
    using assms(2,3) by (simp add: InterfaceDescriptor_fields_def fits_def)
  from list_all2_update_cong [OF fit [unfolded fields_fit_def] this, of 2]
  have "fields_fit InterfaceDescriptor_fields (data[2 := k])"
    by (simp add: fields_fit_def)
  with len show ?thesis by simp
qed

lemma count_of_type_nonneg: "0 \<le> count_of_type ty ds"
  by (simp add: count_of_type_def)

lemmas codec_defs = encode_code_point_def unit_bytes_def unit_of_def

lemmas string_defs =
  StringDescriptor_init_def StringDescriptor_bytes_def StringDescriptor_bString_def
  StringDescriptor_bLength_def StringDescriptor_bDescriptorType_def
  StringDescriptor_bString_setter_def getattr_bytes_def getattr_int_def pack_B_def
  slice_def slice_index_def

lemma uint_byte: "0 \<le> l \<Longrightarrow> l \<le> 255 \<Longrightarrow> uint (word_of_int l :: byte) = l"
  by (simp add: uint_word_of_int_eq take_bit_int_eq_self)

lemma uint_le_bytes_2:
  assumes "0 \<le> v" and "v < 65536"
  shows "uint (word_of_int v :: byte) + 256 * uint (word_of_int (v div 256) :: byte) = v"
proof -
  have "uint (word_of_int v :: byte) = v mod 256"
    by (simp add: uint_word_of_int_eq take_bit_eq_mod)
  moreover have "uint (word_of_int (v div 256) :: byte) = v div 256"
    using assms by (intro uint_byte) auto
  ultimately show ?thesis by simp
qed

lemma utf16le_encode_replicate:
  "c < 0xD800 \<Longrightarrow> utf16le_encode (replicate n c) = Inr (concat (replicate n (unit_bytes c)))"
  by (induction n) (simp_all add: encode_code_point_def)

lemma utf16le_encode_length:
  "utf16le_encode t = Inr bs \<Longrightarrow>
   length bs = sum_list (map (\<lambda>c. if c < 0x10000 then 2 else 4) t)"
  by (induction t arbitrary: bs)
     (auto simp: codec_defs split: sum.splits if_splits)

lemma utf16le_encode_Inl:
  "utf16le_encode t = Inl e \<Longrightarrow> e = UnicodeEncodeError \<and> (\<exists>c \<in> set t. 0xD800 \<le> c \<and> c \<le> 0xDFFF)"
  by (induction t) (auto simp: codec_defs split: sum.splits if_splits)

lemma utf16le_encode_Inr:
  "list_all (\<lambda>c. c < 0xD800 \<or> 0xDFFF < c) t \<Longrightarrow> \<exists>bs. utf16le_encode t = Inr bs"
  by (induction t) (auto simp: codec_defs split: sum.splits if_splits)

lemma slice_from_2:
  "slice xs 2 (2 + int n) = take n (drop 2 xs)"
  by (simp add: slice_def slice_index_def take_drop min_def nat_add_distrib add.commute)

lemma wire_bytes_init:
  assumes "2 \<le> length raw"
  shows "StringDescriptor_init (PyBytes raw)
         = (if raw ! 1 \<noteq> 3 then Inl ValueError
            else Inr \<lparr>attr_bString = Some (take (unat (raw ! 0)) (drop 2 raw)),
                      attr_bLength = Some (uint (raw ! 0))\<rparr>)"
proof -
  have "slice raw 2 (2 + uint (raw ! 0)) = take (unat (raw ! 0)) (drop 2 raw)"
    using slice_from_2 [of raw "unat (raw ! 0)"] by simp
  with assms show ?thesis
    by (simp add: StringDescriptor_init_def Let_def)
qed

lemma bString_setter_unencodable:
  "utf16le_encode v = Inl e \<Longrightarrow> StringDescriptor_bString_setter self v = (self, Inl e)"
  by (simp add: StringDescriptor_bString_setter_def)

text \<open>
  Whenever serializing an interface returns bytes at all, the byte at offset 4 is the
  number of subdescriptors of the endpoint type, which then is at most 255; with more
  of them serialization raises.
\<close>

lemma subdescriptor_loop_Inr_conv:
  "subdescriptor_loop ds n acc = Inr (n', acc') \<Longrightarrow>
   \<exists>cs. map bytes ds = map Inr cs
      \<and> n' = n + count_of_type EndpointDescriptor_bDescriptorType ds \<and> acc' = acc @ cs"
proof (induction ds arbitrary: n acc)
  case Nil
  then show ?case by (simp add: count_of_type_def)
next
  case (Cons d ds)
  then show ?case
    by (fastforce simp: count_of_type_def split: sum.splits if_splits)
qed

lemma pack_values_fit:
  "pack_values fs vs = Inr bs \<Longrightarrow> list_all2 fits fs vs"
  by (induction fs vs arbitrary: bs rule: pack_values.induct)
     (auto split: if_splits sum.splits)

lemma Descriptor_bytes_fit:
  assumes "Descriptor_bytes len ty fs data = Inr bs"
  shows "fields_fit fs data"
proof -
  have "list_all2 fits (map (\<lambda>(name, f, dflt). f) fs) data"
    using pack_values_fit [OF assms [unfolded Descriptor_bytes_def]] by simp
  then show ?thesis
    by (simp add: fields_fit_def list_all2_map1 case_prod_unfold)
qed

lemma interface_bNumEndpoints_if_serialized:
  assumes "bytes (InterfaceDescriptor data subdescriptors) = Inr bs"
  shows "uint (bs ! 4) = count_of_type EndpointDescriptor_bDescriptorType subdescriptors
       \<and> count_of_type EndpointDescriptor_bDescriptorType subdescriptors \<le> 255"
proof -
  let ?k = "count_of_type EndpointDescriptor_bDescriptorType subdescriptors"
  from assms obtain k acc own where loop: "subdescriptor_loop subdescriptors 0 [] = Inr (k, acc)"
    and len: "2 < length data"
    and own: "Descriptor_bytes InterfaceDescriptor_bLength InterfaceDescriptor_bDescriptorType
                InterfaceDescriptor_fields (data[2 := k]) = Inr own"
    and bs: "bs = own @ concat acc"
    by (auto split: sum.splits prod.splits if_splits)
  from subdescriptor_loop_Inr_conv [OF loop] have k: "k = ?k" by simp
  have fit: "fields_fit InterfaceDescriptor_fields (data[2 := k])"
    using own by (rule Descriptor_bytes_fit)
  then have "fits Fmt_B ((data[2 := k]) ! 2)"
    by (auto simp: fields_fit_def InterfaceDescriptor_fields_def list_all2_Cons1)
  with len have r: "0 \<le> k" "k \<le> 255" by (simp_all add: fits_def)
  have "own = 9 # 4 # map word_of_int (data[2 := k])"
    using interface_pack [OF fit] own by simp
  with len bs have "bs ! 4 = (word_of_int k :: byte)"
    by (simp add: nth_append)
  with r k show ?thesis by (simp add: uint_byte)
qed

lemma interface_too_many_endpoints:
  assumes "255 < count_of_type EndpointDescriptor_bDescriptorType subdescriptors"
  shows "\<exists>e. bytes (InterfaceDescriptor data subdescriptors) = Inl e"
proof (cases "bytes (InterfaceDescriptor data subdescriptors)")
  case (Inl e)
  then show ?thesis by blast
next
  case (Inr bs)
  from interface_bNumEndpoints_if_serialized [OF Inr] assms show ?thesis by simp
qed

text \<open>
  The constructor and the serialization on the tables: a bulk IN endpoint 1 is the
  bytes \<^verbatim>\<open>07 05 81 02 40 00 00\<close>, an endpoint needs its address and its attributes,
  and an interface needs its class only.
\<close>

lemma endpoint_example:
  "plain_init Endpoint [''bEndpointAddress'' \<mapsto> 0x01 + DIRECTION_IN, ''bmAttributes'' \<mapsto> TYPE_BULK]
     = Inr (Descriptor Endpoint [0x81, 0x02, 0x40, 0])
   \<and> bytes (Descriptor Endpoint [0x81, 0x02, 0x40, 0])
     = Inr [0x07, 0x05, 0x81, 0x02, 0x40, 0x00, 0x00]
   \<and> plain_init Endpoint [''bmAttributes'' \<mapsto> TYPE_BULK] = Inl MissingFieldError
   \<and> plain_init Endpoint [''bEndpointAddress'' \<mapsto> 0x81] = Inl MissingFieldError"
  by (simp add: table_defs pack_defs plain_init_def TYPE_BULK_def DIRECTION_IN_def)

lemma interface_example:
  "InterfaceDescriptor_init [''bInterfaceClass'' \<mapsto> 3] None
     = Inr (InterfaceDescriptor [0, 0, 0, 3, 0, 0, 0] [])
   \<and> InterfaceDescriptor_init [''bInterfaceNumber'' \<mapsto> 1] None = Inl MissingFieldError"
  by (simp add: table_defs InterfaceDescriptor_init_def fits_def)

section \<open>Properties of the interface descriptor\<close>

text \<open>
  C1, as the code has it. When every subdescriptor serializes, the other fields of the
  interface fit their widths and at most 255 subdescriptors have the endpoint type 5,
  serializing the interface succeeds and the byte \<^verbatim>\<open>bNumEndpoints\<close> (offset 4) of the
  output is the number of direct subdescriptors of type 5, whatever the other
  subdescriptors are and however the two kinds are interleaved.
\<close>

theorem interface_bNumEndpoints:
  assumes children: "map bytes subdescriptors = map Inr cs"
    and fit: "fields_fit InterfaceDescriptor_fields (data[2 := 0])"
    and k: "count_of_type EndpointDescriptor_bDescriptorType subdescriptors \<le> 255"
  shows "\<exists>bs. bytes (InterfaceDescriptor data subdescriptors) = Inr bs
            \<and> uint (bs ! 4) = count_of_type EndpointDescriptor_bDescriptorType subdescriptors"
proof -
  let ?k = "count_of_type EndpointDescriptor_bDescriptorType subdescriptors"
  have loop: "subdescriptor_loop subdescriptors 0 [] = Inr (?k, cs)"
    using subdescriptor_loop_Inr [OF children, of 0 "[]"] by simp
  have f: "fields_fit InterfaceDescriptor_fields (data[2 := ?k])" and len: "length data = 7"
    using fields_fit_count [OF fit count_of_type_nonneg k] by simp_all
  have b: "bytes (InterfaceDescriptor data subdescriptors)
             = Inr ((9 # 4 # map word_of_int (data[2 := ?k])) @ concat cs)"
    using loop len interface_pack [OF f] by simp
  have "uint (word_of_int ?k :: byte) = ?k"
    using k count_of_type_nonneg [of EndpointDescriptor_bDescriptorType subdescriptors]
    by (simp add: uint_word_of_int_eq take_bit_int_eq_self)
  moreover have "((9 # 4 # map word_of_int (data[2 := ?k])) @ concat cs) ! 4 = (word_of_int ?k :: byte)"
    using len by (simp add: nth_append)
  ultimately show ?thesis using b by simp
qed

theorem interface_bNumEndpoints_witness:
  "map bytes [Descriptor Endpoint [0x81, 2, 0x40, 0], OtherDescriptor 0x24 (Inr [5, 0x24, 0, 1, 1]),
              Descriptor Endpoint [0x02, 2, 0x40, 0]]
     = map Inr [[7, 5, 0x81, 2, 0x40, 0, 0], [5, 0x24, 0, 1, 1], [7, 5, 0x02, 2, 0x40, 0, 0]]
   \<and> fields_fit InterfaceDescriptor_fields ([0, 0, 0, 3, 0, 0, 0][2 := 0])
   \<and> count_of_type EndpointDescriptor_bDescriptorType
        [Descriptor Endpoint [0x81, 2, 0x40, 0], OtherDescriptor 0x24 (Inr [5, 0x24, 0, 1, 1]),
         Descriptor Endpoint [0x02, 2, 0x40, 0]] = 2
   \<and> (\<exists>bs. bytes (InterfaceDescriptor [0, 0, 0, 3, 0, 0, 0]
                 [Descriptor Endpoint [0x81, 2, 0x40, 0], OtherDescriptor 0x24 (Inr [5, 0x24, 0, 1, 1]),
                  Descriptor Endpoint [0x02, 2, 0x40, 0]]) = Inr bs
          \<and> uint (bs ! 4) = 2)"
proof -
  let ?subs = "[Descriptor Endpoint [0x81, 2, 0x40, 0], OtherDescriptor 0x24 (Inr [5, 0x24, 0, 1, 1]),
                Descriptor Endpoint [0x02, 2, 0x40, 0]]"
  have h1: "map bytes ?subs
     = map Inr [[7, 5, 0x81, 2, 0x40, 0, 0], [5, 0x24, 0, 1, 1], [7, 5, 0x02, 2, 0x40, 0, 0]]"
    by (simp add: table_defs pack_defs)
  have h2: "fields_fit InterfaceDescriptor_fields ([0, 0, 0, 3, 0, 0, 0][2 := 0])"
    by (simp add: table_defs pack_defs)
  have h3: "count_of_type EndpointDescriptor_bDescriptorType ?subs = 2"
    by (simp add: table_defs pack_defs)
  from h3 have h3': "count_of_type EndpointDescriptor_bDescriptorType ?subs \<le> 255" by simp
  show ?thesis
    using interface_bNumEndpoints [OF h1 h2 h3'] h1 h2 h3 by simp
qed

text \<open>
  C1 as stated, for every number of endpoints, fails: the count of 256 endpoint
  subdescriptors does not fit the one-byte field, and serializing the interface raises
  instead of returning bytes.
\<close>

theorem interface_256_endpoints_counterexample:
  "bytes (InterfaceDescriptor [0, 0, 0, 3, 0, 0, 0]
            (replicate 256 (Descriptor Endpoint [0x81, 2, 0x40, 0])))
   = Inl ValueOutOfRangeError"
proof -
  let ?ep = "Descriptor Endpoint [0x81, 2, 0x40, 0]"
  have "map bytes (replicate 256 ?ep) = map Inr (replicate 256 [7, 5, 0x81, 2, 0x40, 0, 0])"
    by (simp add: table_defs pack_defs)
  from subdescriptor_loop_Inr [OF this, of 0 "[]"]
  have "subdescriptor_loop (replicate 256 ?ep) 0 []
          = Inr (256, replicate 256 [7, 5, 0x81, 2, 0x40, 0, 0])"
    by (simp add: table_defs pack_defs)
  then show ?thesis
    by (simp add: table_defs pack_defs)
qed

text \<open>
  C6. Serializing an interface returns the bytes of its own record, with the endpoint
  count stored, followed by the bytes of each subdescriptor in the order of the list
  \<^verbatim>\<open>subdescriptors\<close>; a subdescriptor that occurs twice is serialized twice.
\<close>

theorem interface_bytes_own_then_children:
  assumes children: "map bytes subdescriptors = map Inr cs"
    and own: "Descriptor_bytes InterfaceDescriptor_bLength InterfaceDescriptor_bDescriptorType
                InterfaceDescriptor_fields
                (data[2 := count_of_type EndpointDescriptor_bDescriptorType subdescriptors])
              = Inr own"
  shows "bytes (InterfaceDescriptor data subdescriptors) = Inr (own @ concat cs)"
proof -
  have "length data = 7"
    using pack_values_length [OF own [unfolded Descriptor_bytes_def]]
    by (simp add: InterfaceDescriptor_fields_def)
  then show ?thesis
    using subdescriptor_loop_Inr [OF children, of 0 "[]"] own by simp
qed

theorem interface_bytes_own_then_children_witness:
  "bytes (InterfaceDescriptor [1, 0, 0, 0xFF, 0, 0, 0]
            [OtherDescriptor 0x24 (Inr [5, 0x24, 0, 1, 1]), Descriptor Endpoint [0x81, 2, 0x40, 0],
             OtherDescriptor 0x24 (Inr [5, 0x24, 0, 1, 1]), Descriptor Endpoint [0x81, 2, 0x40, 0]])
   = Inr ([9, 4, 1, 0, 2, 0xFF, 0, 0, 0]
          @ concat [[5, 0x24, 0, 1, 1], [7, 5, 0x81, 2, 0x40, 0, 0],
                    [5, 0x24, 0, 1, 1], [7, 5, 0x81, 2, 0x40, 0, 0]])"
proof -
  let ?subs = "[OtherDescriptor 0x24 (Inr [5, 0x24, 0, 1, 1]), Descriptor Endpoint [0x81, 2, 0x40, 0],
                OtherDescriptor 0x24 (Inr [5, 0x24, 0, 1, 1]), Descriptor Endpoint [0x81, 2, 0x40, 0]]"
  have h1: "map bytes ?subs
     = map Inr [[5, 0x24, 0, 1, 1], [7, 5, 0x81, 2, 0x40, 0, 0],
                [5, 0x24, 0, 1, 1], [7, 5, 0x81, 2, 0x40, 0, 0]]"
    by (simp add: table_defs pack_defs)
  have h2: "Descriptor_bytes InterfaceDescriptor_bLength InterfaceDescriptor_bDescriptorType
              InterfaceDescriptor_fields
              ([1, 0, 0, 0xFF, 0, 0, 0][2 := count_of_type EndpointDescriptor_bDescriptorType ?subs])
            = Inr [9, 4, 1, 0, 2, 0xFF, 0, 0, 0]"
    by (simp add: table_defs pack_defs)
  show ?thesis
    by (rule interface_bytes_own_then_children [OF h1 h2])
qed

section \<open>Properties of the standard field tables\<close>

text \<open>
  C7, as the code has it. The interface descriptor has record length 9 and descriptor
  type 4. Its fields \<^verbatim>\<open>bInterfaceNumber\<close>, \<^verbatim>\<open>bAlternateSetting\<close>, \<^verbatim>\<open>bNumEndpoints\<close>,
  \<^verbatim>\<open>bInterfaceSubClass\<close>, \<^verbatim>\<open>bInterfaceProtocol\<close> and \<^verbatim>\<open>iInterface\<close> have the default 0, and
  \<^verbatim>\<open>bInterfaceClass\<close> is the only field without a default. \<^verbatim>\<open>bNumEndpoints\<close> is
  computed: serialization does not depend on the value stored for it.
\<close>

theorem interface_schema:
  "InterfaceDescriptor_bLength = 9
   \<and> InterfaceDescriptor_bDescriptorType = 4
   \<and> field_default InterfaceDescriptor_fields ''bInterfaceNumber'' = Some (Some 0)
   \<and> field_default InterfaceDescriptor_fields ''bAlternateSetting'' = Some (Some 0)
   \<and> field_default InterfaceDescriptor_fields ''bNumEndpoints'' = Some (Some 0)
   \<and> field_default InterfaceDescriptor_fields ''bInterfaceSubClass'' = Some (Some 0)
   \<and> field_default InterfaceDescriptor_fields ''bInterfaceProtocol'' = Some (Some 0)
   \<and> field_default InterfaceDescriptor_fields ''iInterface'' = Some (Some 0)
   \<and> filter (required InterfaceDescriptor_fields) (map fst InterfaceDescriptor_fields)
       = [''bInterfaceClass'']
   \<and> bytes (InterfaceDescriptor (data[2 := n]) subdescriptors)
       = bytes (InterfaceDescriptor data subdescriptors)"
  by (simp add: table_defs field_default_def required_def split: sum.splits prod.splits)

text \<open>
  C7 as stated, with the interface number a required field, fails: its entry in the
  table has the default 0.
\<close>

theorem interface_number_default_counterexample:
  "field_default InterfaceDescriptor_fields ''bInterfaceNumber'' = Some (Some 0)
   \<and> \<not> required InterfaceDescriptor_fields ''bInterfaceNumber''"
  by (simp add: table_defs field_default_def required_def)

text \<open>
  C8. The endpoint descriptor has record length 7 and descriptor type 5; the defaults
  are \<^verbatim>\<open>wMaxPacketSize\<close> = 0x40 and \<^verbatim>\<open>bInterval\<close> = 0, and the address and the attributes
  are the fields without a default; the transfer types are 0 control, 1 isochronous,
  2 bulk and 3 interrupt, all within the low two bits, and the direction bit of the
  address is bit 7, 0x80 for IN and 0x00 for OUT.
\<close>

theorem endpoint_schema:
  "EndpointDescriptor_bLength = 7
   \<and> EndpointDescriptor_bDescriptorType = 5
   \<and> field_default EndpointDescriptor_fields ''wMaxPacketSize'' = Some (Some 0x40)
   \<and> field_default EndpointDescriptor_fields ''bInterval'' = Some (Some 0)
   \<and> filter (required EndpointDescriptor_fields) (map fst EndpointDescriptor_fields)
       = [''bEndpointAddress'', ''bmAttributes'']
   \<and> [TYPE_CONTROL, TYPE_ISOCHRONOUS, TYPE_BULK, TYPE_INTERRUPT] = [0, 1, 2, 3]
   \<and> list_all (\<lambda>t. 0 \<le> t \<and> t < 2 ^ 2) [TYPE_CONTROL, TYPE_ISOCHRONOUS, TYPE_BULK, TYPE_INTERRUPT]
   \<and> DIRECTION_IN = 0x80 \<and> DIRECTION_IN = 2 ^ 7 \<and> DIRECTION_OUT = 0x00"
  by (simp add: table_defs field_default_def required_def
      TYPE_CONTROL_def TYPE_ISOCHRONOUS_def TYPE_BULK_def TYPE_INTERRUPT_def
      DIRECTION_IN_def DIRECTION_OUT_def)

text \<open>
  C2, as the code has it. A configuration descriptor has no subdescriptors and no
  serialization of its own: \<^verbatim>\<open>wTotalLength\<close> and \<^verbatim>\<open>bNumInterfaces\<close> are fields without a
  default, supplied by the caller, and serialization returns the 9 bytes of the record,
  which carry the supplied \<^verbatim>\<open>wTotalLength\<close> (bytes 2 and 3, low byte first) and the
  supplied \<^verbatim>\<open>bNumInterfaces\<close> (byte 4) unchanged.
\<close>

theorem configuration_bytes:
  assumes "fields_fit ConfigurationDescriptor_fields data"
  shows "\<exists>bs. bytes (Descriptor Configuration data) = Inr bs
            \<and> length bs = 9
            \<and> uint (bs ! 2) + 256 * uint (bs ! 3) = data ! 0
            \<and> uint (bs ! 4) = data ! 1
            \<and> required ConfigurationDescriptor_fields ''wTotalLength''
            \<and> required ConfigurationDescriptor_fields ''bNumInterfaces''"
proof -
  from assms obtain t n c i a p where d: "data = [t, n, c, i, a, p]"
    and r: "0 \<le> t" "t < 65536" "0 \<le> n" "n \<le> 255"
      "fits Fmt_B c" "fits Fmt_B i" "fits Fmt_B a" "fits Fmt_B p"
    by (auto simp: fields_fit_def ConfigurationDescriptor_fields_def list_all2_Cons1 fits_def)
  have "bytes (Descriptor Configuration data)
          = Inr [9, 2, word_of_int t, word_of_int (t div 256), word_of_int n,
                 word_of_int c, word_of_int i, word_of_int a, word_of_int p]"
    using d r by (simp add: table_defs Descriptor_bytes_def fits_def le_bytes_2)
  moreover have "uint (word_of_int t :: byte) + 256 * uint (word_of_int (t div 256) :: byte) = t"
    using r(1,2) by (rule uint_le_bytes_2)
  moreover have "uint (word_of_int n :: byte) = n"
    using r(3,4) by (rule uint_byte)
  ultimately show ?thesis
    using d by (simp add: table_defs field_default_def required_def)
qed

theorem configuration_bytes_witness:
  "fields_fit ConfigurationDescriptor_fields [0x20, 1, 1, 0, 0x80, 50]
   \<and> (\<exists>bs. bytes (Descriptor Configuration [0x20, 1, 1, 0, 0x80, 50]) = Inr bs
          \<and> length bs = 9
          \<and> uint (bs ! 2) + 256 * uint (bs ! 3) = 0x20
          \<and> uint (bs ! 4) = 1)"
proof -
  have h: "fields_fit ConfigurationDescriptor_fields [0x20, 1, 1, 0, 0x80, 50]"
    by (simp add: table_defs pack_defs)
  show ?thesis
    using configuration_bytes [OF h] h by auto
qed

text \<open>
  C2 as stated, with both fields recomputed at serialization, fails: a configuration
  built with \<^verbatim>\<open>wTotalLength\<close> = 0 serializes to 9 bytes that still announce the total
  length 0.
\<close>

theorem configuration_not_recomputed_counterexample:
  "plain_init Configuration [''wTotalLength'' \<mapsto> 0, ''bNumInterfaces'' \<mapsto> 0]
     = Inr (Descriptor Configuration [0, 0, 1, 0, 0x80, 50])
   \<and> bytes (Descriptor Configuration [0, 0, 1, 0, 0x80, 50])
     = Inr [0x09, 0x02, 0x00, 0x00, 0x00, 0x01, 0x00, 0x80, 50]"
  by (simp add: table_defs pack_defs plain_init_def)

section \<open>Properties of the string descriptor\<close>

text \<open>
  C3, as the code has it. The constructor has no length check: for every text that
  encodes as UTF-16LE it succeeds with the length of the encoded bytes plus 2, also
  beyond 255. A length beyond 255 shows only at serialization, which raises
  \<^verbatim>\<open>struct.error\<close>; a length up to 255 serializes to the header and the encoded bytes.
\<close>

theorem string_from_text:
  assumes "utf16le_encode t = Inr bs"
  shows "StringDescriptor_init (PyStr t)
           = Inr \<lparr>attr_bString = Some bs, attr_bLength = Some (int (length bs) + 2)\<rparr>
       \<and> StringDescriptor_bytes \<lparr>attr_bString = Some bs, attr_bLength = Some (int (length bs) + 2)\<rparr>
           = (if int (length bs) + 2 > 255 then Inl StructError
              else Inr (word_of_int (int (length bs) + 2) # 3 # bs))"
  using assms by (simp add: string_defs)

theorem string_from_text_witness:
  "utf16le_encode (replicate 127 0x61) = Inr (concat (replicate 127 [0x61, 0]))
   \<and> StringDescriptor_init (PyStr (replicate 127 0x61))
       = Inr \<lparr>attr_bString = Some (concat (replicate 127 [0x61, 0])), attr_bLength = Some 256\<rparr>
   \<and> StringDescriptor_bytes
        \<lparr>attr_bString = Some (concat (replicate 127 [0x61, 0])), attr_bLength = Some 256\<rparr>
       = Inl StructError"
proof -
  have h: "utf16le_encode (replicate 127 0x61) = Inr (concat (replicate 127 [0x61, 0]))"
    by (simp add: utf16le_encode_replicate unit_bytes_def)
  show ?thesis
    using string_from_text [OF h] h by (simp add: length_concat sum_list_replicate)
qed

text \<open>
  C3 as stated, with an error from the constructor beyond 255, fails: the text of 127
  letters \<^verbatim>\<open>a\<close> encodes to 254 bytes, and the constructor returns a descriptor of
  length 256.
\<close>

theorem string_from_text_counterexample:
  "StringDescriptor_init (PyStr (replicate 127 0x61))
   = Inr \<lparr>attr_bString = Some (concat (replicate 127 [0x61, 0])), attr_bLength = Some 256\<rparr>"
  by (simp add: StringDescriptor_init_def utf16le_encode_replicate unit_bytes_def
      length_concat sum_list_replicate)

text \<open>
  C4. A descriptor constructed from a text whose length attribute is at most 255
  serializes to the length byte, the type byte 3 and the UTF-16LE bytes of the text;
  the descriptor of the text \<^verbatim>\<open>Hi\<close> serializes to \<^verbatim>\<open>06 03 48 00 69 00\<close>.
\<close>

theorem string_bytes:
  "(StringDescriptor_init (PyStr t) = Inr sd \<and> attr_bLength sd = Some l \<and> l \<le> 255
      \<longrightarrow> (\<exists>bs. utf16le_encode t = Inr bs \<and> l = int (length bs) + 2
                \<and> uint (word_of_int l :: byte) = l
                \<and> StringDescriptor_bytes sd = Inr (word_of_int l # 3 # bs)))
   \<and> StringDescriptor_init (PyStr (map of_char ''Hi''))
       = Inr \<lparr>attr_bString = Some [0x48, 0x00, 0x69, 0x00], attr_bLength = Some 6\<rparr>
   \<and> StringDescriptor_bytes \<lparr>attr_bString = Some [0x48, 0x00, 0x69, 0x00], attr_bLength = Some 6\<rparr>
       = Inr [0x06, 0x03, 0x48, 0x00, 0x69, 0x00]"
proof (intro conjI impI)
  assume a: "StringDescriptor_init (PyStr t) = Inr sd \<and> attr_bLength sd = Some l \<and> l \<le> 255"
  then obtain bs where bs: "utf16le_encode t = Inr bs"
    and sd: "sd = \<lparr>attr_bString = Some bs, attr_bLength = Some (int (length bs) + 2)\<rparr>"
    by (auto simp: StringDescriptor_init_def split: sum.splits)
  with a have l: "l = int (length bs) + 2" "l \<le> 255" "0 \<le> l" by auto
  have "uint (word_of_int l :: byte) = l"
    using l(3,2) by (rule uint_byte)
  moreover have "StringDescriptor_bytes sd = Inr (word_of_int l # 3 # bs)"
    using sd l by (simp add: string_defs)
  ultimately show "\<exists>bs. utf16le_encode t = Inr bs \<and> l = int (length bs) + 2
                \<and> uint (word_of_int l :: byte) = l
                \<and> StringDescriptor_bytes sd = Inr (word_of_int l # 3 # bs)"
    using bs l by blast
next
  show "StringDescriptor_init (PyStr (map of_char ''Hi''))
       = Inr \<lparr>attr_bString = Some [0x48, 0x00, 0x69, 0x00], attr_bLength = Some 6\<rparr>"
    by (simp add: string_defs codec_defs)
next
  show "StringDescriptor_bytes \<lparr>attr_bString = Some [0x48, 0x00, 0x69, 0x00], attr_bLength = Some 6\<rparr>
       = Inr [0x06, 0x03, 0x48, 0x00, 0x69, 0x00]"
    by (simp add: string_defs)
qed

theorem string_bytes_witness:
  "StringDescriptor_init (PyStr (map of_char ''Hi''))
     = Inr \<lparr>attr_bString = Some [0x48, 0x00, 0x69, 0x00], attr_bLength = Some 6\<rparr>
   \<and> attr_bLength \<lparr>attr_bString = Some [0x48, 0x00, 0x69, 0x00], attr_bLength = Some 6\<rparr> = Some 6
   \<and> (6 :: int) \<le> 255
   \<and> (\<exists>bs. utf16le_encode (map of_char ''Hi'') = Inr bs \<and> (6 :: int) = int (length bs) + 2
          \<and> StringDescriptor_bytes \<lparr>attr_bString = Some [0x48, 0x00, 0x69, 0x00], attr_bLength = Some 6\<rparr>
              = Inr (0x06 # 0x03 # bs))"
proof -
  let ?hi = "\<lparr>attr_bString = Some [0x48, 0x00, 0x69, 0x00], attr_bLength = Some (6 :: int)\<rparr>"
  have h: "StringDescriptor_init (PyStr (map of_char ''Hi'')) = Inr ?hi
           \<and> attr_bLength ?hi = Some 6 \<and> (6 :: int) \<le> 255"
    by (simp add: string_defs codec_defs)
  from string_bytes [of "map of_char ''Hi''" ?hi 6] h
  have "\<exists>bs. utf16le_encode (map of_char ''Hi'') = Inr bs \<and> (6 :: int) = int (length bs) + 2
          \<and> uint (word_of_int 6 :: byte) = 6
          \<and> StringDescriptor_bytes ?hi = Inr (word_of_int 6 # 3 # bs)"
    by blast
  then show ?thesis using h by auto
qed

text \<open>
  C5, at the input \<^verbatim>\<open>04 03 48 00 69 00\<close>: the constructor stores the length 4 and the
  four bytes \<^verbatim>\<open>raw[2:2+4]\<close>, which decode to \<^verbatim>\<open>Hi\<close>, where \<^verbatim>\<open>raw[2:4]\<close> is the two
  bytes that decode to \<^verbatim>\<open>H\<close>; the stored bytes are 2 longer than the length
  attribute allows, and the descriptor serializes to 6 bytes under the length byte 4.
\<close>

theorem wire_bytes_slice_too_long:
  "StringDescriptor_init (PyBytes [4, 3, 0x48, 0x00, 0x69, 0x00])
     = Inr \<lparr>attr_bString = Some [0x48, 0x00, 0x69, 0x00], attr_bLength = Some 4\<rparr>
   \<and> slice [4, 3, 0x48, 0x00, 0x69, 0x00 :: byte] 2 4 = [0x48, 0x00]
   \<and> StringDescriptor_bString \<lparr>attr_bString = Some [0x48, 0x00, 0x69, 0x00], attr_bLength = Some 4\<rparr>
       = Inr (map of_char ''Hi'')
   \<and> utf16le_decode [0x48, 0x00] = Inr (map of_char ''H'')
   \<and> StringDescriptor_bytes \<lparr>attr_bString = Some [0x48, 0x00, 0x69, 0x00], attr_bLength = Some 4\<rparr>
       = Inr [4, 3, 0x48, 0x00, 0x69, 0x00]"
  by (simp add: string_defs codec_defs)

text \<open>
  C9. A byte sequence of length 0 or 1 is accepted by the constructor without an
  error, and the instance has neither \<^verbatim>\<open>_bString\<close> nor \<^verbatim>\<open>_bLength\<close>; serializing
  it and reading \<^verbatim>\<open>bString\<close> both raise \<^verbatim>\<open>AttributeError\<close>.
\<close>

theorem short_sequence_leaves_attributes_unset:
  assumes "length raw \<le> 1"
  shows "\<exists>sd. StringDescriptor_init (PyBytes raw) = Inr sd
            \<and> attr_bString sd = None \<and> attr_bLength sd = None
            \<and> StringDescriptor_bytes sd = Inl AttributeError
            \<and> StringDescriptor_bString sd = Inl AttributeError"
  using assms
  by (simp add: StringDescriptor_init_def StringDescriptor_bytes_def
      StringDescriptor_bString_def getattr_bytes_def)

theorem short_sequence_leaves_attributes_unset_witness:
  "length [5 :: byte] \<le> 1
   \<and> StringDescriptor_init (PyBytes [5]) = Inr \<lparr>attr_bString = None, attr_bLength = None\<rparr>
   \<and> StringDescriptor_bytes \<lparr>attr_bString = None, attr_bLength = None\<rparr> = Inl AttributeError
   \<and> StringDescriptor_bString \<lparr>attr_bString = None, attr_bLength = None\<rparr> = Inl AttributeError"
  using short_sequence_leaves_attributes_unset [of "[5]"]
  by (auto simp: StringDescriptor_init_def)

text \<open>
  C10, as the code has it. Assigning to \<^verbatim>\<open>bString\<close> always raises. For a value that
  encodes as UTF-16LE the exception is the \<^verbatim>\<open>AttributeError\<close> of reading
  \<^verbatim>\<open>self.encoded\<close>, raised after \<^verbatim>\<open>_bString\<close> was replaced by the new encoding and with
  \<^verbatim>\<open>bLength\<close> as it was before.
\<close>

theorem bString_setter:
  "(\<exists>e. snd (StringDescriptor_bString_setter self v) = Inl e)
   \<and> (utf16le_encode v = Inr bs \<longrightarrow>
        StringDescriptor_bString_setter self v = (self\<lparr>attr_bString := Some bs\<rparr>, Inl AttributeError)
        \<and> attr_bString (fst (StringDescriptor_bString_setter self v)) = Some bs
        \<and> StringDescriptor_bLength (fst (StringDescriptor_bString_setter self v))
            = StringDescriptor_bLength self)"
  by (auto simp: string_defs split: sum.splits)

theorem bString_setter_witness:
  "utf16le_encode (map of_char ''Hello'')
     = Inr [0x48, 0, 0x65, 0, 0x6C, 0, 0x6C, 0, 0x6F, 0]
   \<and> StringDescriptor_bString_setter
        \<lparr>attr_bString = Some [0x48, 0x00, 0x69, 0x00], attr_bLength = Some 6\<rparr>
        (map of_char ''Hello'')
      = (\<lparr>attr_bString = Some [0x48, 0, 0x65, 0, 0x6C, 0, 0x6C, 0, 0x6F, 0], attr_bLength = Some 6\<rparr>,
         Inl AttributeError)"
proof -
  have h: "utf16le_encode (map of_char ''Hello'')
     = Inr [0x48, 0, 0x65, 0, 0x6C, 0, 0x6C, 0, 0x6F, 0]"
    by (simp add: codec_defs)
  show ?thesis
    using bString_setter [of "\<lparr>attr_bString = Some [0x48, 0x00, 0x69, 0x00], attr_bLength = Some 6\<rparr>"
        "map of_char ''Hello''" "[0x48, 0, 0x65, 0, 0x6C, 0, 0x6C, 0, 0x6F, 0]"] h
    by simp
qed

text \<open>
  C10 as stated, for every string value, fails: a value with a lone surrogate raises
  \<^verbatim>\<open>UnicodeEncodeError\<close> before anything is assigned, and the stored bytes stay those of
  the old text.
\<close>

theorem bString_setter_surrogate_counterexample:
  "StringDescriptor_bString_setter
     \<lparr>attr_bString = Some [0x48, 0x00, 0x69, 0x00], attr_bLength = Some 6\<rparr> [0xD800]
   = (\<lparr>attr_bString = Some [0x48, 0x00, 0x69, 0x00], attr_bLength = Some 6\<rparr>, Inl UnicodeEncodeError)"
  by (simp add: string_defs codec_defs)

end
